theory Spec2Isabelle
  imports Main
begin

section \<open>Data model of \<open>Dialog.hook.ts\<close>\<close>

text \<open>
  A DOM node (an \<open>EventTarget\<close>) is known by its identity only. An event carries
  its \<open>target\<close> and, for a keyboard event, its \<open>key\<close> (reading \<open>key\<close> off any
  other event gives \<open>undefined\<close>, here \<open>None\<close>).
\<close>

type_synonym node = nat

record event =
  target :: node
  key :: "string option"

text \<open>
  \<open>React.useRef\<close>: an object with identity and a mutable \<open>current\<close> field, \<open>null\<close>
  (\<open>None\<close>) until something is stored.
\<close>

record RefObject =
  ref_id :: nat
  current :: "node option"

text \<open>
  \<open>DialogHookProps\<close>, field by field. An optional field that the caller leaves out is
  \<open>None\<close>. The callbacks are \<open>() => void\<close> functions, opaque to the hook; all three
  are called with \<open>?.()\<close>, so each may be absent. The prop \<open>onOverlayClick\<close> is bound
  to the local \<open>onOverlayClickProp\<close> in the source, and that name is used here.
\<close>

datatype callback = Callback nat

record DialogHookProps =
  isOpen :: bool
  id_prop :: "string option"
  onClose :: "callback option"
  shouldBlockScroll :: "bool option"
  shouldCloseOnOverlayClick :: "bool option"
  shouldCloseOnEsc :: "bool option"
  onOverlayClickProp :: "callback option"
  onEsc :: "callback option"
  useInert :: "bool option"

text \<open>A destructuring default \<open>{ x = d } = props\<close>: \<open>d\<close> when the field is undefined.\<close>

definition withDefault :: "'a \<Rightarrow> 'a option \<Rightarrow> 'a" where
  "withDefault d v = (case v of None \<Rightarrow> d | Some x \<Rightarrow> x)"

text \<open>
  What a handler does is recorded as the list of its observable actions, in order:
  a call of \<open>event.stopPropagation()\<close>, the invocation of one of the three callback
  props (named by the prop), or any other action of caller-supplied code.
\<close>

datatype callback_prop = OnClose | OnEsc | OnOverlayClickProp

datatype effect = StopPropagation | Invoke callback_prop | Other nat

text \<open>The optional call \<open>f?.()\<close>: nothing happens when \<open>f\<close> is undefined.\<close>

definition optCall :: "callback_prop \<Rightarrow> callback option \<Rightarrow> effect list" where
  "optCall p f = (case f of None \<Rightarrow> [] | Some c \<Rightarrow> [Invoke p])"

text \<open>
  The state one instance of the hook keeps between renders: the three refs and the
  two \<open>useState\<close> flags.
\<close>

record hook_state =
  dialogRef :: RefObject
  overlayRef :: RefObject
  mouseDownTarget :: RefObject
  headerMounted :: bool
  bodyMounted :: bool

text \<open>
  \<open>Dialog.manager\<close> is imported by the hook and is not part of the file. The hook only
  asks it \<open>manager.isTopDialog(dialogRef)\<close>, so the manager is a parameter: whatever it
  answers for a ref object.
\<close>

record DialogManager =
  isTopDialog :: "RefObject \<Rightarrow> bool"

section \<open>The event handlers of \<open>useDialog\<close>\<close>

text \<open>\<open>onMouseDown\<close> (lines 101-103) stores the event's target in \<open>mouseDownTarget\<close>.\<close>

definition onMouseDown :: "event \<Rightarrow> hook_state \<Rightarrow> hook_state" where
  "onMouseDown ev s = s\<lparr>mouseDownTarget := (mouseDownTarget s)\<lparr>current := Some (target ev)\<rparr>\<rparr>"

text \<open>\<open>onKeyDown\<close> (lines 105-118).\<close>

definition onKeyDown :: "DialogHookProps \<Rightarrow> event \<Rightarrow> effect list" where
  "onKeyDown props ev =
     (if key ev = Some ''Escape'' then
        [StopPropagation]
        @ (if withDefault True (shouldCloseOnEsc props) then optCall OnClose (onClose props) else [])
        @ optCall OnEsc (onEsc props)
      else [])"

text \<open>
  \<open>onOverlayClick\<close> (lines 120-145): stop propagation, return early unless the click
  ends on the element the mouse-down started on, then ask the manager.
\<close>

definition onOverlayClick ::
  "DialogManager \<Rightarrow> DialogHookProps \<Rightarrow> hook_state \<Rightarrow> event \<Rightarrow> effect list" where
  "onOverlayClick manager props s ev =
     [StopPropagation]
     @ (if current (mouseDownTarget s) \<noteq> Some (target ev) then []
        else if isTopDialog manager (dialogRef s) then
          (if withDefault True (shouldCloseOnOverlayClick props)
           then optCall OnClose (onClose props) else [])
          @ optCall OnOverlayClickProp (onOverlayClickProp props)
        else [])"

section \<open>The hooks called by \<open>useDialog\<close>\<close>

text \<open>
  Lines 86, 93 and 97: the arguments \<open>useDialog\<close> hands to \<open>useLockBodyScroll\<close>,
  \<open>useAriaHidden\<close> and \<open>useDialogManager\<close>, each a ref and a flag.
\<close>

record hook_args =
  lockBodyScroll :: "RefObject \<times> bool"
  ariaHidden :: "RefObject \<times> bool"
  dialogManager :: "RefObject \<times> bool"

definition useDialog_hooks :: "DialogHookProps \<Rightarrow> hook_state \<Rightarrow> hook_args" where
  "useDialog_hooks props s =
     \<lparr>lockBodyScroll = (dialogRef s, isOpen props \<and> withDefault True (shouldBlockScroll props)),
      ariaHidden = (dialogRef s, isOpen props \<and> withDefault True (useInert props)),
      dialogManager = (dialogRef s, isOpen props)\<rparr>"

text \<open>
  \<open>useAriaHidden\<close> (lines 191-210). \<open>hideOthers\<close> belongs to the package
  \<open>aria-hidden\<close>, so it is a parameter: applied to a node and to the page (of any type
  \<open>'d\<close>) it gives the changed page and the \<open>Undo\<close> it returns. The definition is the
  function passed to \<open>React.useEffect\<close>: it gives the page after the effect and the
  cleanup function it returns, \<open>None\<close> for the early return of line 196.
\<close>

type_synonym 'd Undo = "'d \<Rightarrow> 'd"

definition useAriaHidden ::
  "(node \<Rightarrow> 'd \<Rightarrow> 'd \<times> 'd Undo) \<Rightarrow> RefObject \<Rightarrow> bool \<Rightarrow> 'd \<Rightarrow> 'd \<times> 'd Undo option" where
  "useAriaHidden hideOthers ref shouldHide d =
     (case current ref of
        None \<Rightarrow> (d, None)
      | Some n \<Rightarrow>
          (case (if shouldHide then (case hideOthers n d of (d', u) \<Rightarrow> (d', Some u))
                 else (d, None)) of
             (d', undo) \<Rightarrow>
               (d', Some (\<lambda>d''. if shouldHide
                                 then (case undo of None \<Rightarrow> d'' | Some u \<Rightarrow> u d'')
                                 else d''))))"

text \<open>Line 93: the effect as \<open>useDialog\<close> runs it.\<close>

definition useDialog_ariaHidden ::
  "(node \<Rightarrow> 'd \<Rightarrow> 'd \<times> 'd Undo) \<Rightarrow> DialogHookProps \<Rightarrow> hook_state \<Rightarrow> 'd \<Rightarrow> 'd \<times> 'd Undo option" where
  "useDialog_ariaHidden hideOthers props s d =
     (case ariaHidden (useDialog_hooks props s) of
        (ref, shouldHide) \<Rightarrow> useAriaHidden hideOthers ref shouldHide d)"

section \<open>The prop getters\<close>

text \<open>
  A \<open>Dict\<close> is an object with string keys and values of any kind. A function value
  is an event handler: it may act and may change the hook's state. \<open>mergeRefs\<close> and
  \<open>callAllHandlers\<close> belong to \<open>@chakra-ui/utils\<close> and are not part of the file: what
  they return is kept symbolic, a value that records what the utility was applied to,
  and nothing is assumed about how it behaves.
\<close>

type_synonym handler = "event \<Rightarrow> hook_state \<Rightarrow> effect list \<times> hook_state"

datatype jsval =
  VUndefined | VNull | VBool bool | VNum int | VStr string
  | VFn handler | VRef RefObject | VMergedRefs jsval RefObject
  | VCallAllHandlers jsval handler

type_synonym Dict = "string \<rightharpoonup> jsval"

text \<open>Reading a property: \<open>undefined\<close> when the object has no such key.\<close>

definition getProp :: "Dict \<Rightarrow> string \<Rightarrow> jsval" where
  "getProp d k = (case d k of None \<Rightarrow> VUndefined | Some v \<Rightarrow> v)"

text \<open>JavaScript's truthiness, and \<open>a || b\<close>.\<close>

fun truthy :: "jsval \<Rightarrow> bool" where
  "truthy VUndefined = False"
| "truthy VNull = False"
| "truthy (VBool b) = b"
| "truthy (VNum n) = (n \<noteq> 0)"
| "truthy (VStr s) = (s \<noteq> [])"
| "truthy (VFn h) = True"
| "truthy (VRef r) = True"
| "truthy (VMergedRefs v r) = True"
| "truthy (VCallAllHandlers v h) = True"

definition js_or :: "jsval \<Rightarrow> jsval \<Rightarrow> jsval" where
  "js_or a b = (if truthy a then a else b)"

text \<open>The three ids that \<open>useIds\<close> (of \<open>@chakra-ui/hooks\<close>) returns, line 76.\<close>

record DialogIds =
  dialogId :: string
  headerId :: string
  bodyId :: string

text \<open>
  \<open>getDialogContentProps\<close> (lines 157-169): the caller's props, then the hook's own
  entries over them. The argument defaults to the empty object.
\<close>

definition getDialogContentProps :: "DialogIds \<Rightarrow> hook_state \<Rightarrow> Dict option \<Rightarrow> Dict" where
  "getDialogContentProps ids s arg =
     (let props = withDefault Map.empty arg in
      props(''ref'' \<mapsto> VMergedRefs (getProp props ''ref'') (dialogRef s),
            ''id'' \<mapsto> VStr (dialogId ids),
            ''role'' \<mapsto> js_or (getProp props ''role'') (VStr ''dialog''),
            ''tabIndex'' \<mapsto> VNum (- 1),
            ''aria-modal'' \<mapsto> VBool True,
            ''aria-labelledby'' \<mapsto> (if headerMounted s then VStr (headerId ids) else VUndefined),
            ''aria-describedby'' \<mapsto> (if bodyMounted s then VStr (bodyId ids) else VUndefined),
            ''onClick'' \<mapsto>
               VCallAllHandlers (getProp props ''onClick'') (\<lambda>ev st. ([StopPropagation], st))))"

text \<open>
  \<open>getDialogOverlayProps\<close> (lines 170-176). The handlers read the refs when they are
  called, so they take the state of that moment.
\<close>

definition getDialogOverlayProps ::
  "DialogManager \<Rightarrow> DialogHookProps \<Rightarrow> hook_state \<Rightarrow> Dict option \<Rightarrow> Dict" where
  "getDialogOverlayProps manager hookProps s arg =
     (let props = withDefault Map.empty arg in
      props(''ref'' \<mapsto> VMergedRefs (getProp props ''ref'') (overlayRef s),
            ''onClick'' \<mapsto>
               VCallAllHandlers (getProp props ''onClick'')
                 (\<lambda>ev st. (onOverlayClick manager hookProps st ev, st)),
            ''onKeyDown'' \<mapsto>
               VCallAllHandlers (getProp props ''onKeyDown'') (\<lambda>ev st. (onKeyDown hookProps ev, st)),
            ''onMouseDown'' \<mapsto>
               VCallAllHandlers (getProp props ''onMouseDown'') (\<lambda>ev st. ([], onMouseDown ev st))))"

section \<open>Events over time\<close>

text \<open>
  What can happen to one dialog between renders: an event reaches one of the overlay's
  handlers, or one of the setters the hook returns is called. \<open>step\<close> is what each
  leaves in the hook's state: only \<open>onMouseDown\<close> and the two setters write anything.
\<close>

datatype dom_event =
  MouseDown event | KeyDown event | Click event | SetHeaderMounted bool | SetBodyMounted bool

fun step :: "dom_event \<Rightarrow> hook_state \<Rightarrow> hook_state" where
  "step (MouseDown ev) s = onMouseDown ev s"
| "step (KeyDown ev) s = s"
| "step (Click ev) s = s"
| "step (SetHeaderMounted b) s = s\<lparr>headerMounted := b\<rparr>"
| "step (SetBodyMounted b) s = s\<lparr>bodyMounted := b\<rparr>"

definition run :: "dom_event list \<Rightarrow> hook_state \<Rightarrow> hook_state" where
  "run evs s = fold step evs s"

section \<open>The handlers with their completion\<close>

text \<open>
  A run of a handler either completes or is ended by an exception. The second
  component of an \<open>outcome\<close> is the exception that ended the run, \<open>None\<close> when the run
  completed; the first is what was done up to there. A call has one of two forms: the
  plain \<open>f()\<close>, which throws a \<open>TypeError\<close> when \<open>f\<close> is undefined, and the optional
  \<open>f?.()\<close>, which then does nothing.
\<close>

datatype error = TypeError

type_synonym outcome = "effect list \<times> error option"

datatype call_form = Plain | Optional

definition callJS :: "call_form \<Rightarrow> callback_prop \<Rightarrow> callback option \<Rightarrow> outcome" where
  "callJS form p f =
     (case f of
        Some c \<Rightarrow> ([Invoke p], None)
      | None \<Rightarrow> (case form of Plain \<Rightarrow> ([], Some TypeError) | Optional \<Rightarrow> ([], None)))"

text \<open>One action that cannot fail, no action at all, and one statement after another.\<close>

definition act :: "effect \<Rightarrow> outcome" where
  "act e = ([e], None)"

definition noAction :: outcome where
  "noAction = ([], None)"

definition andThen :: "outcome \<Rightarrow> outcome \<Rightarrow> outcome" where
  "andThen a b =
     (case a of
        (t, Some e) \<Rightarrow> (t, Some e)
      | (t, None) \<Rightarrow> (case b of (u, r) \<Rightarrow> (t @ u, r)))"

text \<open>
  \<open>onKeyDown\<close> (lines 105-118) statement by statement, each call in the form the
  source writes it: \<open>onClose?.()\<close> on line 111, \<open>onEsc?.()\<close> on line 114.
\<close>

definition onKeyDown_outcome :: "DialogHookProps \<Rightarrow> event \<Rightarrow> outcome" where
  "onKeyDown_outcome props ev =
     (if key ev = Some ''Escape'' then
        andThen (act StopPropagation)
          (andThen
             (if withDefault True (shouldCloseOnEsc props)
              then callJS Optional OnClose (onClose props) else noAction)
             (callJS Optional OnEsc (onEsc props)))
      else noAction)"

text \<open>
  \<open>onOverlayClick\<close> (lines 120-145) in the same way: \<open>onClose?.()\<close> on line 139,
  \<open>onOverlayClickProp?.()\<close> on line 141; the \<open>return\<close> of line 132 ends the run
  normally.
\<close>

definition onOverlayClick_outcome ::
  "DialogManager \<Rightarrow> DialogHookProps \<Rightarrow> hook_state \<Rightarrow> event \<Rightarrow> outcome" where
  "onOverlayClick_outcome manager props s ev =
     andThen (act StopPropagation)
       (if current (mouseDownTarget s) \<noteq> Some (target ev) then noAction
        else if isTopDialog manager (dialogRef s) then
          andThen
            (if withDefault True (shouldCloseOnOverlayClick props)
             then callJS Optional OnClose (onClose props) else noAction)
            (callJS Optional OnOverlayClickProp (onOverlayClickProp props))
        else noAction)"

section \<open>Sample inputs\<close>

definition state0 :: hook_state where
  "state0 = \<lparr>dialogRef = \<lparr>ref_id = 0, current = Some 10\<rparr>,
     overlayRef = \<lparr>ref_id = 1, current = Some 11\<rparr>,
     mouseDownTarget = \<lparr>ref_id = 2, current = None\<rparr>,
     headerMounted = False, bodyMounted = False\<rparr>"

definition manager0 :: DialogManager where
  "manager0 = \<lparr>isTopDialog = (\<lambda>r. ref_id r = 0)\<rparr>"

definition ids0 :: DialogIds where
  "ids0 = \<lparr>dialogId = ''chakra-dialog-1'', headerId = ''chakra-dialog--header-1'',
     bodyId = ''chakra-dialog--body-1''\<rparr>"

definition click :: "node \<Rightarrow> event" where
  "click n = \<lparr>target = n, key = None\<rparr>"

definition props0 :: DialogHookProps where
  "props0 = \<lparr>isOpen = True, id_prop = None, onClose = Some (Callback 1),
     shouldBlockScroll = None, shouldCloseOnOverlayClick = None, shouldCloseOnEsc = None,
     onOverlayClickProp = Some (Callback 2), onEsc = Some (Callback 3), useInert = None\<rparr>"

definition escape :: event where
  "escape = \<lparr>target = 7, key = Some ''Escape''\<rparr>"

definition managerBelow :: DialogManager where
  "managerBelow = \<lparr>isTopDialog = (\<lambda>r. ref_id r = 5)\<rparr>"

definition roleEmpty :: Dict where
  "roleEmpty = [''role'' \<mapsto> VStr '''']"

definition roleAlert :: Dict where
  "roleAlert = [''role'' \<mapsto> VStr ''alertdialog'', ''id'' \<mapsto> VStr ''mine'', ''tabIndex'' \<mapsto> VNum 0]"

text \<open>
  A page of three nodes, given by the set of those that carry \<open>aria-hidden\<close>: a stand-in
  for \<open>hideOthers\<close> that hides every node but the given one and undoes what it hid.
\<close>

definition others :: "node \<Rightarrow> node set" where
  "others n = {10, 11, 12} - {n}"

definition hideOthers0 :: "node \<Rightarrow> node set \<Rightarrow> node set \<times> node set Undo" where
  "hideOthers0 n d = (d \<union> others n, \<lambda>d'. d' - (others n - d))"

section \<open>Facts about the helpers\<close>

lemma withDefault_True: "withDefault True v = (v \<noteq> Some False)"
  by (cases v) (auto simp: withDefault_def)

lemma optCall_mem: "(e \<in> set (optCall p f)) = (e = Invoke p \<and> f \<noteq> None)"
  by (auto simp: optCall_def split: option.splits)

lemma optCall_None: "optCall p None = []"
  by (simp add: optCall_def)

lemma filter_optCall_other: "p \<noteq> q \<Longrightarrow> filter (\<lambda>e. e \<noteq> Invoke p) (optCall q f) = optCall q f"
  by (cases f) (auto simp: optCall_def)

lemma filter_optCall_same: "filter (\<lambda>e. e \<noteq> Invoke p) (optCall p f) = []"
  by (cases f) (auto simp: optCall_def)

lemma step_dialogRef: "dialogRef (step a s) = dialogRef s"
  by (cases a) (simp_all add: onMouseDown_def)

lemma run_dialogRef: "dialogRef (run h s) = dialogRef s"
  unfolding run_def
  by (induction h arbitrary: s) (simp_all add: step_dialogRef)

lemma run_append: "run (h @ k) s = run k (run h s)"
  by (simp add: run_def)

text \<open>The stored target is that of the most recent mouse-down, whatever came before.\<close>

lemma run_last_mouseDown:
  "current (mouseDownTarget (run (h @ [MouseDown ev]) s)) = Some (target ev)"
  by (simp add: run_append) (simp add: run_def onMouseDown_def)

lemma hideOthers0_undo: "snd (hideOthers0 n d) (fst (hideOthers0 n d)) = d"
  by (auto simp: hideOthers0_def)

section \<open>Overlay click\<close>

text \<open>
  C1. A click on the overlay whose target is the stored mouse-down target: the
  \<open>onOverlayClick\<close> callback is invoked exactly when the manager says the dialog is
  the topmost one, and \<open>onClose\<close> exactly when it is topmost and
  \<open>shouldCloseOnOverlayClick\<close> is true (true when left out); each callback can only
  be invoked when the caller provided it. A dialog that is not topmost is never
  closed: the handler then only stops propagation.
\<close>

theorem onOverlayClick_same_target:
  assumes "current (mouseDownTarget s) = Some (target ev)"
  shows "(Invoke OnOverlayClickProp \<in> set (onOverlayClick manager props s ev)) =
           (isTopDialog manager (dialogRef s) \<and> onOverlayClickProp props \<noteq> None)
       \<and> (Invoke OnClose \<in> set (onOverlayClick manager props s ev)) =
           (isTopDialog manager (dialogRef s) \<and> shouldCloseOnOverlayClick props \<noteq> Some False
            \<and> onClose props \<noteq> None)
       \<and> (\<not> isTopDialog manager (dialogRef s) \<longrightarrow>
            onOverlayClick manager props s ev = [StopPropagation])"
proof (cases "isTopDialog manager (dialogRef s)")
  case True
  with assms show ?thesis
    by (simp add: onOverlayClick_def optCall_mem withDefault_True)
next
  case False
  then show ?thesis
    by (simp add: onOverlayClick_def)
qed

theorem onOverlayClick_same_target_witness:
  "current (mouseDownTarget (onMouseDown (click 5) state0)) = Some (target (click 5))
   \<and> onOverlayClick manager0 props0 (onMouseDown (click 5) state0) (click 5)
       = [StopPropagation, Invoke OnClose, Invoke OnOverlayClickProp]
   \<and> onOverlayClick manager0 (props0\<lparr>shouldCloseOnOverlayClick := Some False\<rparr>)
         (onMouseDown (click 5) state0) (click 5)
       = [StopPropagation, Invoke OnOverlayClickProp]
   \<and> onOverlayClick managerBelow props0 (onMouseDown (click 5) state0) (click 5)
       = [StopPropagation]"
  using onOverlayClick_same_target [of "onMouseDown (click 5) state0" "click 5" manager0 props0]
    onOverlayClick_same_target [of "onMouseDown (click 5) state0" "click 5" managerBelow props0]
  by (simp add: onOverlayClick_def onMouseDown_def state0_def click_def manager0_def
      managerBelow_def props0_def optCall_def withDefault_def)

text \<open>
  C2. A click whose target is not the one the most recent mouse-down stored (or that
  comes before any mouse-down): the handler stops propagation and does nothing else,
  so neither \<open>onClose\<close> nor the \<open>onOverlayClick\<close> callback is invoked.
\<close>

theorem onOverlayClick_other_target:
  "(current (mouseDownTarget s) \<noteq> Some (target ev)
      \<longrightarrow> onOverlayClick manager props s ev = [StopPropagation])
   \<and> (target ev0 \<noteq> target ev
      \<longrightarrow> onOverlayClick manager props (onMouseDown ev0 s) ev = [StopPropagation])"
  by (simp add: onOverlayClick_def onMouseDown_def)

theorem onOverlayClick_other_target_witness:
  "target (click 6) \<noteq> target (click 5)
   \<and> onOverlayClick manager0 props0 (onMouseDown (click 6) state0) (click 5) = [StopPropagation]
   \<and> current (mouseDownTarget state0) \<noteq> Some (target (click 5))
   \<and> onOverlayClick manager0 props0 state0 (click 5) = [StopPropagation]"
  using onOverlayClick_other_target [of state0 "click 5" manager0 props0 "click 6"]
  by (simp add: click_def state0_def)

section \<open>Escape key\<close>

text \<open>
  C3. On a keydown, \<open>onClose\<close> is invoked exactly when the key is \<open>Escape\<close> and
  \<open>shouldCloseOnEsc\<close> is true (true when left out), the callback being there to invoke;
  on any other key the handler does nothing at all: it invokes no callback and does
  not stop propagation.
\<close>

theorem onKeyDown_close_iff:
  "(Invoke OnClose \<in> set (onKeyDown props ev)) =
     (key ev = Some ''Escape'' \<and> shouldCloseOnEsc props \<noteq> Some False \<and> onClose props \<noteq> None)
   \<and> (key ev \<noteq> Some ''Escape'' \<longrightarrow> onKeyDown props ev = [])"
  by (auto simp: onKeyDown_def optCall_mem withDefault_True)

theorem onKeyDown_close_iff_witness:
  "Invoke OnClose \<in> set (onKeyDown props0 escape)
   \<and> Invoke OnClose \<notin> set (onKeyDown (props0\<lparr>shouldCloseOnEsc := Some False\<rparr>) escape)
   \<and> onKeyDown props0 (escape\<lparr>key := Some ''Enter''\<rparr>) = []"
  using onKeyDown_close_iff [of props0 escape]
    onKeyDown_close_iff [of "props0\<lparr>shouldCloseOnEsc := Some False\<rparr>" escape]
    onKeyDown_close_iff [of props0 "escape\<lparr>key := Some ''Enter''\<rparr>"]
  by (simp add: props0_def escape_def)

text \<open>
  C10. On \<open>Escape\<close> the handler always calls \<open>event.stopPropagation()\<close> first and
  invokes \<open>onEsc\<close> whenever it is provided, whatever \<open>shouldCloseOnEsc\<close> says: with
  \<open>shouldCloseOnEsc\<close> false the handler stops propagation and invokes \<open>onEsc\<close>, and
  \<open>onClose\<close> is not invoked.
\<close>

theorem onKeyDown_escape:
  assumes "key ev = Some ''Escape''"
  shows "hd (onKeyDown props ev) = StopPropagation
       \<and> (Invoke OnEsc \<in> set (onKeyDown props ev)) = (onEsc props \<noteq> None)
       \<and> (shouldCloseOnEsc props = Some False \<longrightarrow>
            onKeyDown props ev = StopPropagation # optCall OnEsc (onEsc props))"
  using assms by (simp add: onKeyDown_def optCall_mem withDefault_def)

theorem onKeyDown_escape_witness:
  "key escape = Some ''Escape''
   \<and> onKeyDown (props0\<lparr>shouldCloseOnEsc := Some False\<rparr>) escape = [StopPropagation, Invoke OnEsc]
   \<and> Invoke OnEsc \<in> set (onKeyDown props0 escape)"
  using onKeyDown_escape [of escape "props0\<lparr>shouldCloseOnEsc := Some False\<rparr>"]
    onKeyDown_escape [of escape props0]
  by (simp add: escape_def props0_def optCall_def)

section \<open>Absent callbacks\<close>

lemma callJS_Optional: "callJS Optional p f = (optCall p f, None)"
  by (cases f) (simp_all add: callJS_def optCall_def)

lemma andThen_completed: "andThen (t, None) (u, r) = (t @ u, r)"
  by (simp add: andThen_def)

lemma andThen_completes: "(snd (andThen a b) = None) = (snd a = None \<and> snd b = None)"
  by (cases a; cases b) (auto simp: andThen_def split: option.splits)

lemma act_completes: "snd (act e) = None" and noAction_completes: "snd noAction = None"
  by (simp_all add: act_def noAction_def)

text \<open>The actions of a run are those of the handler as defined above.\<close>

lemma onKeyDown_outcome_eq: "onKeyDown_outcome props ev = (onKeyDown props ev, None)"
  by (simp add: onKeyDown_outcome_def onKeyDown_def callJS_Optional act_def noAction_def
      andThen_completed)

lemma onOverlayClick_outcome_eq:
  "onOverlayClick_outcome manager props s ev = (onOverlayClick manager props s ev, None)"
  by (simp add: onOverlayClick_outcome_def onOverlayClick_def callJS_Optional act_def
      noAction_def andThen_completed)

text \<open>
  C8. In the model a step of a handler can fail in one way only: an action and a
  skipped branch always complete, a sequence completes when both parts do, and a call
  throws exactly when it is a plain call of an absent callback. Every call of the two
  handlers is optional, so whatever props, state, manager and event, and whichever
  callbacks are absent, the run completes: no exception ends it. With a callback
  absent the run does what it does with the callback present, less that one
  invocation: nothing takes its place and the steps after it still happen.
  (Exceptions thrown inside a callback that was provided are not modelled.)
\<close>

theorem optional_calls_complete:
  "(snd (callJS form p f) = Some TypeError) = (form = Plain \<and> f = None)
   \<and> snd (onKeyDown_outcome props ev) = None
   \<and> snd (onOverlayClick_outcome manager props s ev) = None
   \<and> onKeyDown_outcome (props\<lparr>onClose := None\<rparr>) ev
       = (filter (\<lambda>e. e \<noteq> Invoke OnClose) (fst (onKeyDown_outcome props ev)), None)
   \<and> onKeyDown_outcome (props\<lparr>onEsc := None\<rparr>) ev
       = (filter (\<lambda>e. e \<noteq> Invoke OnEsc) (fst (onKeyDown_outcome props ev)), None)
   \<and> onOverlayClick_outcome manager (props\<lparr>onClose := None\<rparr>) s ev
       = (filter (\<lambda>e. e \<noteq> Invoke OnClose) (fst (onOverlayClick_outcome manager props s ev)), None)
   \<and> onOverlayClick_outcome manager (props\<lparr>onOverlayClickProp := None\<rparr>) s ev
       = (filter (\<lambda>e. e \<noteq> Invoke OnOverlayClickProp)
            (fst (onOverlayClick_outcome manager props s ev)), None)"
proof -
  have only_failure: "(snd (callJS form p f) = Some TypeError) = (form = Plain \<and> f = None)"
    by (cases f; cases form) (simp_all add: callJS_def)
  have key_close: "onKeyDown (props\<lparr>onClose := None\<rparr>) ev
      = filter (\<lambda>e. e \<noteq> Invoke OnClose) (onKeyDown props ev)"
    by (simp add: onKeyDown_def optCall_None filter_optCall_other filter_optCall_same)
  have key_esc: "onKeyDown (props\<lparr>onEsc := None\<rparr>) ev
      = filter (\<lambda>e. e \<noteq> Invoke OnEsc) (onKeyDown props ev)"
    by (simp add: onKeyDown_def optCall_None filter_optCall_other filter_optCall_same)
  have click_close: "onOverlayClick manager (props\<lparr>onClose := None\<rparr>) s ev
      = filter (\<lambda>e. e \<noteq> Invoke OnClose) (onOverlayClick manager props s ev)"
    by (simp add: onOverlayClick_def optCall_None filter_optCall_other filter_optCall_same)
  have click_overlay: "onOverlayClick manager (props\<lparr>onOverlayClickProp := None\<rparr>) s ev
      = filter (\<lambda>e. e \<noteq> Invoke OnOverlayClickProp) (onOverlayClick manager props s ev)"
    by (simp add: onOverlayClick_def optCall_None filter_optCall_other filter_optCall_same)
  from only_failure key_close key_esc click_close click_overlay show ?thesis
    by (simp add: onKeyDown_outcome_eq onOverlayClick_outcome_eq)
qed

theorem optional_calls_complete_witness:
  "callJS Plain OnClose None = ([], Some TypeError)
   \<and> callJS Optional OnClose None = ([], None)
   \<and> onKeyDown_outcome (props0\<lparr>onClose := None\<rparr>) escape = ([StopPropagation, Invoke OnEsc], None)
   \<and> onKeyDown_outcome (props0\<lparr>onEsc := None\<rparr>) escape = ([StopPropagation, Invoke OnClose], None)
   \<and> onKeyDown_outcome (props0\<lparr>onClose := None, onEsc := None\<rparr>) escape
       = ([StopPropagation], None)
   \<and> onOverlayClick_outcome manager0 (props0\<lparr>onClose := None\<rparr>) (onMouseDown (click 5) state0)
         (click 5)
       = ([StopPropagation, Invoke OnOverlayClickProp], None)
   \<and> onOverlayClick_outcome manager0 (props0\<lparr>onOverlayClickProp := None\<rparr>)
         (onMouseDown (click 5) state0) (click 5)
       = ([StopPropagation, Invoke OnClose], None)"
  using optional_calls_complete [of Plain OnClose None props0 escape manager0
      "onMouseDown (click 5) state0"]
    optional_calls_complete [of Optional OnClose None props0 "click 5" manager0
      "onMouseDown (click 5) state0"]
  by (simp add: callJS_def onKeyDown_outcome_def onOverlayClick_outcome_def act_def noAction_def
      andThen_def onMouseDown_def props0_def escape_def click_def state0_def manager0_def
      withDefault_def)

section \<open>Scroll lock and inert background\<close>

text \<open>
  C6. \<open>useLockBodyScroll\<close> receives \<open>true\<close> as its flag exactly when the dialog is
  open and \<open>shouldBlockScroll\<close> is true (true when left out), and \<open>false\<close> otherwise.
\<close>

theorem useLockBodyScroll_enabled:
  "snd (lockBodyScroll (useDialog_hooks props s)) =
     (isOpen props \<and> shouldBlockScroll props \<noteq> Some False)"
  by (simp add: useDialog_hooks_def withDefault_True)

theorem useLockBodyScroll_enabled_witness:
  "snd (lockBodyScroll (useDialog_hooks props0 state0))
   \<and> \<not> snd (lockBodyScroll (useDialog_hooks (props0\<lparr>isOpen := False\<rparr>) state0))
   \<and> \<not> snd (lockBodyScroll (useDialog_hooks (props0\<lparr>shouldBlockScroll := Some False\<rparr>) state0))"
  using useLockBodyScroll_enabled [of props0 state0]
    useLockBodyScroll_enabled [of "props0\<lparr>isOpen := False\<rparr>" state0]
    useLockBodyScroll_enabled [of "props0\<lparr>shouldBlockScroll := Some False\<rparr>" state0]
  by (simp add: props0_def)

text \<open>
  C5. The effect of \<open>useAriaHidden\<close>, as \<open>useDialog\<close> runs it, applies \<open>hideOthers\<close> to
  the dialog node exactly when the dialog is open, \<open>useInert\<close> is true (true when left
  out) and the dialog ref holds a node; the cleanup it returns is then the \<open>Undo\<close>
  that this application returned, and otherwise changes nothing. So whenever the
  library's \<open>Undo\<close> restores the page that \<open>hideOthers\<close> found, the effect followed
  by its cleanup leaves the page as it was.
\<close>

theorem useDialog_ariaHidden_paired:
  "useDialog_ariaHidden hideOthers props s d =
     (case current (dialogRef s) of
        None \<Rightarrow> (d, None)
      | Some n \<Rightarrow>
          if isOpen props \<and> useInert props \<noteq> Some False
          then (fst (hideOthers n d), Some (snd (hideOthers n d)))
          else (d, Some (\<lambda>d'. d')))
   \<and> ((\<forall>n d. snd (hideOthers n d) (fst (hideOthers n d)) = d) \<longrightarrow>
        (case useDialog_ariaHidden hideOthers props s d of
           (d', None) \<Rightarrow> d' = d
         | (d', Some cleanup) \<Rightarrow> cleanup d' = d))"
proof -
  have eq: "useDialog_ariaHidden hideOthers props s d =
     (case current (dialogRef s) of
        None \<Rightarrow> (d, None)
      | Some n \<Rightarrow>
          if isOpen props \<and> useInert props \<noteq> Some False
          then (fst (hideOthers n d), Some (snd (hideOthers n d)))
          else (d, Some (\<lambda>d'. d')))"
    by (cases "isOpen props \<and> useInert props \<noteq> Some False")
      (auto simp: useDialog_ariaHidden_def useAriaHidden_def useDialog_hooks_def withDefault_True
        split: option.splits prod.splits)
  have restored: "case useDialog_ariaHidden hideOthers props s d of
           (d', None) \<Rightarrow> d' = d
         | (d', Some cleanup) \<Rightarrow> cleanup d' = d"
    if "\<forall>n d. snd (hideOthers n d) (fst (hideOthers n d)) = d"
    using that unfolding eq by (simp split: option.splits)
  from eq restored show ?thesis by blast
qed

theorem useDialog_ariaHidden_paired_witness:
  "(\<forall>n d. snd (hideOthers0 n d) (fst (hideOthers0 n d)) = d)
   \<and> fst (useDialog_ariaHidden hideOthers0 props0 state0 {}) = {11, 12}
   \<and> fst (useDialog_ariaHidden hideOthers0 (props0\<lparr>useInert := Some False\<rparr>) state0 {}) = {}
   \<and> (case useDialog_ariaHidden hideOthers0 props0 state0 {} of
         (d', None) \<Rightarrow> False | (d', Some cleanup) \<Rightarrow> cleanup d' = {})"
  using useDialog_ariaHidden_paired [of hideOthers0 props0 state0 "{}"]
    useDialog_ariaHidden_paired [of hideOthers0 "props0\<lparr>useInert := Some False\<rparr>" state0 "{}"]
    hideOthers0_undo
  by (auto simp: props0_def state0_def hideOthers0_def others_def split: prod.splits option.splits)

section \<open>Attributes of the dialog content\<close>

text \<open>
  C4, as stated, at a caller who passes the empty string as role: a role is given,
  and the returned role is not that role (it is \<open>dialog\<close>, as \<open>||\<close> takes the right
  operand for any falsy left one).
\<close>

theorem getDialogContentProps_role_counterexample:
  "roleEmpty ''role'' = Some (VStr '''')
   \<and> getProp (getDialogContentProps ids0 state0 (Some roleEmpty)) ''role'' \<noteq> VStr ''''
   \<and> getProp (getDialogContentProps ids0 state0 (Some roleEmpty)) ''role'' = VStr ''dialog''"
  by (simp add: getDialogContentProps_def getProp_def js_or_def Let_def roleEmpty_def
      withDefault_def)

text \<open>
  C4, amended. Whatever props the caller passes (also none, also props that set these
  keys themselves), the returned object has \<open>id\<close> equal to \<open>dialogId\<close>, \<open>tabIndex\<close>
  \<open>-1\<close>, \<open>aria-modal\<close> true, \<open>aria-labelledby\<close> equal to \<open>headerId\<close> when the header
  is mounted and undefined otherwise, \<open>aria-describedby\<close> equal to \<open>bodyId\<close> when the
  body is mounted and undefined otherwise, and as \<open>role\<close> the caller's role when that
  is truthy (a non-empty string) and \<open>dialog\<close> otherwise.
\<close>

theorem getDialogContentProps_attributes:
  "getProp (getDialogContentProps ids s arg) ''id'' = VStr (dialogId ids)
   \<and> getProp (getDialogContentProps ids s arg) ''tabIndex'' = VNum (- 1)
   \<and> getProp (getDialogContentProps ids s arg) ''aria-modal'' = VBool True
   \<and> getProp (getDialogContentProps ids s arg) ''role'' =
       (if truthy (getProp (withDefault Map.empty arg) ''role'')
        then getProp (withDefault Map.empty arg) ''role'' else VStr ''dialog'')
   \<and> getProp (getDialogContentProps ids s arg) ''aria-labelledby'' =
       (if headerMounted s then VStr (headerId ids) else VUndefined)
   \<and> getProp (getDialogContentProps ids s arg) ''aria-describedby'' =
       (if bodyMounted s then VStr (bodyId ids) else VUndefined)"
  by (simp add: getDialogContentProps_def getProp_def js_or_def Let_def)

theorem getDialogContentProps_attributes_witness:
  "getProp (getDialogContentProps ids0 (state0\<lparr>headerMounted := True\<rparr>) (Some roleAlert)) ''id''
       = VStr ''chakra-dialog-1''
   \<and> getProp (getDialogContentProps ids0 (state0\<lparr>headerMounted := True\<rparr>) (Some roleAlert)) ''tabIndex''
       = VNum (- 1)
   \<and> getProp (getDialogContentProps ids0 (state0\<lparr>headerMounted := True\<rparr>) (Some roleAlert)) ''role''
       = VStr ''alertdialog''
   \<and> getProp (getDialogContentProps ids0 (state0\<lparr>headerMounted := True\<rparr>) None) ''role''
       = VStr ''dialog''
   \<and> getProp (getDialogContentProps ids0 (state0\<lparr>headerMounted := True\<rparr>) (Some roleAlert))
         ''aria-labelledby'' = VStr ''chakra-dialog--header-1''
   \<and> getProp (getDialogContentProps ids0 (state0\<lparr>headerMounted := True\<rparr>) (Some roleAlert))
         ''aria-describedby'' = VUndefined"
  using getDialogContentProps_attributes [of ids0 "state0\<lparr>headerMounted := True\<rparr>" "Some roleAlert"]
    getDialogContentProps_attributes [of ids0 "state0\<lparr>headerMounted := True\<rparr>" None]
  by (simp add: ids0_def state0_def roleAlert_def withDefault_def getProp_def)

section \<open>What the click decision depends on\<close>

text \<open>
  C7, as stated, at two runs with the same props, the same manager, the same refs and
  the same click on node 5: after a mouse-down on node 5 the click invokes the
  callbacks, after a mouse-down on node 6 it does not. The decision reads what an
  earlier event stored.
\<close>

theorem onOverlayClick_history_counterexample:
  "onOverlayClick manager0 props0 (run [MouseDown (click 5)] state0) (click 5)
     = [StopPropagation, Invoke OnClose, Invoke OnOverlayClickProp]
   \<and> onOverlayClick manager0 props0 (run [MouseDown (click 6)] state0) (click 5)
     = [StopPropagation]"
  by (simp add: onOverlayClick_def run_def onMouseDown_def manager0_def props0_def state0_def
      click_def optCall_def withDefault_def)

text \<open>
  C7, amended. Of the state retained from earlier events the decision reads only the
  target stored by the most recent mouse-down, and beside it the manager's answer. Two
  runs (any earlier events \<open>h1\<close> and \<open>h2\<close>, from any states with the same dialog ref)
  that agree on the stored target and on the manager's answer decide the same click in
  the same way under the same props.
\<close>

theorem onOverlayClick_decision_inputs:
  assumes "dialogRef s1 = dialogRef s2"
      and "current (mouseDownTarget (run h1 s1)) = current (mouseDownTarget (run h2 s2))"
      and "isTopDialog m1 (dialogRef s1) = isTopDialog m2 (dialogRef s2)"
  shows "onOverlayClick m1 props (run h1 s1) ev = onOverlayClick m2 props (run h2 s2) ev"
proof -
  have "dialogRef (run h1 s1) = dialogRef s1" and "dialogRef (run h2 s2) = dialogRef s2"
    by (simp_all add: run_dialogRef)
  with assms show ?thesis
    by (simp add: onOverlayClick_def)
qed

theorem onOverlayClick_decision_inputs_witness:
  "dialogRef state0 = dialogRef (state0\<lparr>bodyMounted := True\<rparr>)
   \<and> current (mouseDownTarget
        (run [MouseDown (click 6), KeyDown escape, SetHeaderMounted True, MouseDown (click 5)] state0))
       = current (mouseDownTarget (run [MouseDown (click 5)] (state0\<lparr>bodyMounted := True\<rparr>)))
   \<and> onOverlayClick manager0 props0
        (run [MouseDown (click 6), KeyDown escape, SetHeaderMounted True, MouseDown (click 5)] state0)
        (click 5)
       = onOverlayClick manager0 props0 (run [MouseDown (click 5)] (state0\<lparr>bodyMounted := True\<rparr>))
           (click 5)"
  using onOverlayClick_decision_inputs [of state0 "state0\<lparr>bodyMounted := True\<rparr>"
      "[MouseDown (click 6), KeyDown escape, SetHeaderMounted True, MouseDown (click 5)]"
      "[MouseDown (click 5)]" manager0 manager0 props0 "click 5"]
  by (simp add: run_def onMouseDown_def state0_def)

end
